theory Spec2Isabelle
  imports Complex_Main "HOL-Library.Monad_Syntax" "HOL-Library.AList" "HOL-Library.Multiset"
    "HOL-Library.Product_Lexorder"
begin

section \<open>Danmaku parameter codec\<close>

text \<open>
  The packed parameter string of a comment is the Python \<^verbatim>\<open>str\<close> in column \<^verbatim>\<open>p\<close>. It is
  modelled by the list of its UTF-8 bytes; the byte \<^verbatim>\<open>0x2C\<close> (comma) never occurs inside a
  multi-byte sequence, so splitting the byte list on the comma is splitting the text on it.
\<close>

subsection \<open>\<^verbatim>\<open>str.split(',')\<close>\<close>

text \<open>
  \<^verbatim>\<open>params.split(',')\<close>: the pieces between the separators, always at least one piece
  (the empty text splits into one empty piece).
\<close>

fun split_on :: "'a \<Rightarrow> 'a list \<Rightarrow> 'a list list" where
  "split_on d [] = [[]]"
| "split_on d (c # cs) =
     (if c = d then [] # split_on d cs
      else (case split_on d cs of
              [] \<Rightarrow> [[c]]
            | p # ps \<Rightarrow> (c # p) # ps))"

text \<open>\<^verbatim>\<open>','.join(parts)\<close>, the inverse direction, used to build inputs from their fields.\<close>

fun join_on :: "'a \<Rightarrow> 'a list list \<Rightarrow> 'a list" where
  "join_on d [] = []"
| "join_on d [p] = p"
| "join_on d (p # q # ps) = p @ d # join_on d (q # ps)"

subsection \<open>\<^verbatim>\<open>DanmakuParamsParser.parse_params_string\<close>\<close>

text \<open>
  The dictionary the function returns on success has exactly the eight keys below, so it
  is a record; the empty dictionary \<^verbatim>\<open>{}\<close> returned on every failure is \<open>None\<close>.
  The type \<open>'f\<close> is Python's \<^verbatim>\<open>float\<close>; the integers are Python's unbounded \<^verbatim>\<open>int\<close>.
\<close>

record 'f params =
  time :: 'f
  mode :: int
  font_size :: int
  color :: int
  timestamp :: int
  pool :: int
  danmaku_id :: string
  user_hash :: string

text \<open>
  The builtins \<^verbatim>\<open>float\<close> and \<^verbatim>\<open>int\<close> applied to a \<^verbatim>\<open>str\<close> either return a value or
  raise \<^verbatim>\<open>ValueError\<close>; they are the parameters \<open>py_float\<close> and \<open>py_int\<close>, with
  \<open>None\<close> for the raise. The \<^verbatim>\<open>try\<close> block catches \<^verbatim>\<open>ValueError\<close> and \<^verbatim>\<open>IndexError\<close> and
  falls through to \<^verbatim>\<open>return {}\<close>, as does a split into fewer than 8 pieces.
\<close>

definition parse_params_string ::
  "(string \<Rightarrow> 'f option) \<Rightarrow> (string \<Rightarrow> int option) \<Rightarrow> string \<Rightarrow> 'f params option" where
  "parse_params_string py_float py_int ps =
     (let parts = split_on CHR '','' ps in
      if length parts \<ge> 8 then
        do {
          tm \<leftarrow> py_float (parts ! 0);
          md \<leftarrow> py_int (parts ! 1);
          fs \<leftarrow> py_int (parts ! 2);
          cl \<leftarrow> py_int (parts ! 3);
          ts \<leftarrow> py_int (parts ! 4);
          pl \<leftarrow> py_int (parts ! 5);
          Some \<lparr> time = tm, mode = md, font_size = fs, color = cl, timestamp = ts,
                 pool = pl, danmaku_id = parts ! 6,
                 user_hash = (if length parts > 7 then parts ! 7 else []) \<rparr>
        }
      else None)"

subsection \<open>The builtins on ASCII text\<close>

text \<open>
  Concrete readers for the examples below. \<open>py_int_ascii\<close> is \<^verbatim>\<open>int(s)\<close> on ASCII text:
  surrounding whitespace is stripped, one optional sign, then decimal digits in which
  single underscores may separate digits. \<open>py_float_dec\<close> is \<^verbatim>\<open>float(s)\<close> on plain
  decimal literals (optional sign, digits with an optional point); its value is the
  exact rational, which is the \<^verbatim>\<open>float\<close> whenever the literal is representable.
\<close>

definition is_space :: "char \<Rightarrow> bool" where
  "is_space c = (let n = of_char c :: nat in (9 \<le> n \<and> n \<le> 13) \<or> (28 \<le> n \<and> n \<le> 32))"

definition is_digit :: "char \<Rightarrow> bool" where
  "is_digit c = (let n = of_char c :: nat in 48 \<le> n \<and> n \<le> 57)"

definition digit_val :: "char \<Rightarrow> nat" where
  "digit_val c = of_char c - 48"

definition strip :: "string \<Rightarrow> string" where
  "strip s = rev (dropWhile is_space (rev (dropWhile is_space s)))"

fun read_digits :: "bool \<Rightarrow> nat \<Rightarrow> string \<Rightarrow> nat option" where
  "read_digits prev acc [] = (if prev then Some acc else None)"
| "read_digits prev acc (c # cs) =
     (if is_digit c then read_digits True (acc * 10 + digit_val c) cs
      else if c = CHR ''_'' \<and> prev then read_digits False acc cs
      else None)"

definition py_int_ascii :: "string \<Rightarrow> int option" where
  "py_int_ascii s =
     (case strip s of
        [] \<Rightarrow> None
      | c # cs \<Rightarrow>
          if c = CHR ''-'' then map_option (\<lambda>n. - int n) (read_digits False 0 cs)
          else if c = CHR ''+'' then map_option int (read_digits False 0 cs)
          else map_option int (read_digits False 0 (c # cs)))"

definition unsigned_dec :: "string \<Rightarrow> rat option" where
  "unsigned_dec s =
     (case split_on CHR ''.'' s of
        [ip] \<Rightarrow> if ip \<noteq> [] \<and> list_all is_digit ip
                then map_option (\<lambda>n. of_nat n) (read_digits False 0 ip) else None
      | [ip, fp] \<Rightarrow> if ip @ fp \<noteq> [] \<and> list_all is_digit (ip @ fp)
                    then map_option (\<lambda>n. of_nat n / 10 ^ length fp) (read_digits False 0 (ip @ fp))
                    else None
      | _ \<Rightarrow> None)"

definition py_float_dec :: "string \<Rightarrow> rat option" where
  "py_float_dec s =
     (case strip s of
        [] \<Rightarrow> None
      | c # cs \<Rightarrow>
          if c = CHR ''-'' then map_option uminus (unsigned_dec cs)
          else if c = CHR ''+'' then unsigned_dec cs
          else unsigned_dec (c # cs))"

section \<open>Attribute catalog: \<^verbatim>\<open>get_color_hex\<close>\<close>

text \<open>
  \<^verbatim>\<open>f"#{color:06X}"\<close>: the format \<^verbatim>\<open>06X\<close> writes the integer in upper-case hexadecimal,
  sign first, padded with zeros after the sign to a minimal total width of 6. It never
  shortens a longer number.
\<close>

definition hex_digit :: "nat \<Rightarrow> char" where
  "hex_digit d = ''0123456789ABCDEF'' ! d"

function to_hex_upper :: "nat \<Rightarrow> string" where
  "to_hex_upper n =
     (if n < 16 then [hex_digit n] else to_hex_upper (n div 16) @ [hex_digit (n mod 16)])"
  by pat_completeness auto
termination
  by (relation "measure id") auto

declare to_hex_upper.simps [simp del]

definition format_06X :: "int \<Rightarrow> string" where
  "format_06X n =
     (let ds = to_hex_upper (nat \<bar>n\<bar>) in
      if n < 0 then CHR ''-'' # replicate (5 - length ds) CHR ''0'' @ ds
      else replicate (6 - length ds) CHR ''0'' @ ds)"

definition get_color_hex :: "int \<Rightarrow> string" where
  "get_color_hex c = CHR ''#'' # format_06X c"

text \<open>Reading a string of upper-case hexadecimal digits back, to state what was written.\<close>

definition is_hex_upper :: "char \<Rightarrow> bool" where
  "is_hex_upper c = (let n = of_char c :: nat in (48 \<le> n \<and> n \<le> 57) \<or> (65 \<le> n \<and> n \<le> 70))"

definition hex_char_val :: "char \<Rightarrow> nat" where
  "hex_char_val c = (let n = of_char c :: nat in if n \<le> 57 then n - 48 else n - 55)"

definition hex_val :: "string \<Rightarrow> nat" where
  "hex_val ds = foldl (\<lambda>acc c. acc * 16 + hex_char_val c) 0 ds"

subsection \<open>\<^verbatim>\<open>get_mode_name\<close> and \<^verbatim>\<open>get_font_size_name\<close>\<close>

text \<open>
  The two label tables. The labels are Chinese text, written here as their UTF-8 bytes;
  a code that is not in the table is labelled by a fixed prefix followed by the code in
  decimal between brackets, as the f-string does.
\<close>

function to_dec :: "nat \<Rightarrow> string" where
  "to_dec n =
     (if n < 10 then [''0123456789'' ! n] else to_dec (n div 10) @ [''0123456789'' ! (n mod 10)])"
  by pat_completeness auto
termination
  by (relation "measure id") auto

declare to_dec.simps [simp del]

definition py_str_int :: "int \<Rightarrow> string" where
  "py_str_int n = (if n < 0 then CHR ''-'' # to_dec (nat (- n)) else to_dec (nat n))"

definition mode_names :: "(int \<times> string) list" where
  "mode_names =
     [(1, [CHR 0xE4, CHR 0xBB, CHR 0x8E, CHR 0xE5, CHR 0x8F, CHR 0xB3,
        CHR 0xE8, CHR 0x87, CHR 0xB3, CHR 0xE5, CHR 0xB7, CHR 0xA6,
        CHR 0xE6, CHR 0xBB, CHR 0x9A, CHR 0xE5, CHR 0x8A, CHR 0xA8]),
      (4, [CHR 0xE5, CHR 0xBA, CHR 0x95, CHR 0xE7, CHR 0xAB, CHR 0xAF,
        CHR 0xE5, CHR 0x9B, CHR 0xBA, CHR 0xE5, CHR 0xAE, CHR 0x9A]),
      (5, [CHR 0xE9, CHR 0xA1, CHR 0xB6, CHR 0xE7, CHR 0xAB, CHR 0xAF,
        CHR 0xE5, CHR 0x9B, CHR 0xBA, CHR 0xE5, CHR 0xAE, CHR 0x9A]),
      (6, [CHR 0xE9, CHR 0x80, CHR 0x86, CHR 0xE5, CHR 0x90, CHR 0x91,
        CHR 0xE6, CHR 0xBB, CHR 0x9A, CHR 0xE5, CHR 0x8A, CHR 0xA8]),
      (7, [CHR 0xE7, CHR 0xB2, CHR 0xBE, CHR 0xE7, CHR 0xA1, CHR 0xAE,
        CHR 0xE5, CHR 0xAE, CHR 0x9A, CHR 0xE4, CHR 0xBD, CHR 0x8D]),
      (8, [CHR 0xE9, CHR 0xAB, CHR 0x98, CHR 0xE7, CHR 0xBA, CHR 0xA7,
        CHR 0xE5, CHR 0xBC, CHR 0xB9, CHR 0xE5, CHR 0xB9, CHR 0x95])]"

definition get_mode_name :: "int \<Rightarrow> string" where
  "get_mode_name md =
     (case map_of mode_names md of
        Some name \<Rightarrow> name
      | None \<Rightarrow> [CHR 0xE6, CHR 0x9C, CHR 0xAA, CHR 0xE7, CHR 0x9F, CHR 0xA5,
        CHR 0xE6, CHR 0xA8, CHR 0xA1, CHR 0xE5, CHR 0xBC, CHR 0x8F] @ ''('' @ py_str_int md @ '')'')"

definition size_names :: "(int \<times> string) list" where
  "size_names =
     [(12, [CHR 0xE5, CHR 0xB0, CHR 0x8F]),
      (18, [CHR 0xE6, CHR 0xA0, CHR 0x87, CHR 0xE5, CHR 0x87, CHR 0x86]),
      (25, [CHR 0xE5, CHR 0xA4, CHR 0xA7])]"

definition get_font_size_name :: "int \<Rightarrow> string" where
  "get_font_size_name sz =
     (case map_of size_names sz of
        Some name \<Rightarrow> name
      | None \<Rightarrow> [CHR 0xE8, CHR 0x87, CHR 0xAA, CHR 0xE5, CHR 0xAE, CHR 0x9A,
        CHR 0xE4, CHR 0xB9, CHR 0x89] @ ''('' @ py_str_int sz @ '')'')"

section \<open>Statistics: \<^verbatim>\<open>EnhancedCommentStatistics\<close>\<close>

text \<open>
  The database session is outside the program. Each \<^verbatim>\<open>await self.session.execute(stmt)\<close>
  either returns rows or raises an \<^verbatim>\<open>Exception\<close>, and may change the state of the session
  (a failed statement can leave a transaction unusable, say); so a session is a pair of
  functions over a state \<open>'s\<close>, one for the three grouped queries on the view
  \<^verbatim>\<open>comment_params_view\<close> and one for \<^verbatim>\<open>select(Comment.p) ... .limit(limit)\<close>.
\<close>

datatype exn = Exception string

datatype view_column = Color | Mode | FontSize

record 's session =
  execute_view :: "view_column \<Rightarrow> int \<Rightarrow> 's \<Rightarrow> (exn + (int \<times> nat) list) \<times> 's"
  execute_select_p :: "int \<Rightarrow> int \<Rightarrow> 's \<Rightarrow> (exn + string list) \<times> 's"

text \<open>
  A distribution is a Python \<^verbatim>\<open>dict\<close> from label to count; its items are kept in
  insertion order, and assigning to a key that is present keeps the key's place.
\<close>

type_synonym dist = "(string \<times> nat) list"

text \<open>
  The dictionary \<^verbatim>\<open>get_comprehensive_statistics\<close> returns; \<open>stats_method\<close> is its key
  \<^verbatim>\<open>"method"\<close>, and \<open>sample_limit\<close> is \<open>None\<close> when the key is absent.
\<close>

record stats =
  stats_method :: string
  sample_limit :: "int option"
  color_distribution :: dist
  mode_distribution :: dist
  font_size_distribution :: dist

text \<open>The loop \<^verbatim>\<open>for code, count in result.all(): d[label(code)] = count\<close>.\<close>

definition relabel :: "(int \<Rightarrow> string) \<Rightarrow> (int \<times> nat) list \<Rightarrow> dist" where
  "relabel label rows = fold (\<lambda>(code, count) d. AList.update (label code) count d) rows []"

definition distribution_via_view ::
  "view_column \<Rightarrow> (int \<Rightarrow> string) \<Rightarrow> 's session \<Rightarrow> int \<Rightarrow> 's \<Rightarrow> (exn + dist) \<times> 's" where
  "distribution_via_view col label db episode_id s =
     (case execute_view db col episode_id s of
        (Inl e, s') \<Rightarrow> (Inl e, s')
      | (Inr rows, s') \<Rightarrow> (Inr (relabel label rows), s'))"

definition get_color_distribution_via_view :: "'s session \<Rightarrow> int \<Rightarrow> 's \<Rightarrow> (exn + dist) \<times> 's" where
  "get_color_distribution_via_view = distribution_via_view Color get_color_hex"

definition get_mode_distribution_via_view :: "'s session \<Rightarrow> int \<Rightarrow> 's \<Rightarrow> (exn + dist) \<times> 's" where
  "get_mode_distribution_via_view = distribution_via_view Mode get_mode_name"

definition get_font_size_distribution_via_view ::
  "'s session \<Rightarrow> int \<Rightarrow> 's \<Rightarrow> (exn + dist) \<times> 's" where
  "get_font_size_distribution_via_view = distribution_via_view FontSize get_font_size_name"

text \<open>
  The loop of the Python path: a row that does not decode (\<^verbatim>\<open>'color' in params\<close> is false
  for \<^verbatim>\<open>{}\<close>) is skipped, a decoded row adds one to the count of its label. Then
  \<^verbatim>\<open>dict(sorted(d.items(), key=lambda x: x[1], reverse=True))\<close>, a stable sort.
\<close>

definition tally :: "('f params \<Rightarrow> string) \<Rightarrow> (string \<Rightarrow> 'f params option) \<Rightarrow> string list \<Rightarrow> dist" where
  "tally label parse rows =
     fold (\<lambda>params_str d.
             case parse params_str of
               None \<Rightarrow> d
             | Some ps \<Rightarrow>
                 AList.update (label ps) (case map_of d (label ps) of None \<Rightarrow> 1 | Some n \<Rightarrow> n + 1) d)
          rows []"

definition sorted_by_count :: "dist \<Rightarrow> dist" where
  "sorted_by_count d = sort_key (\<lambda>(label, count). - int count) d"

definition distribution_via_python ::
  "('f params \<Rightarrow> string) \<Rightarrow> 's session \<Rightarrow> (string \<Rightarrow> 'f option) \<Rightarrow> (string \<Rightarrow> int option)
     \<Rightarrow> int \<Rightarrow> int \<Rightarrow> 's \<Rightarrow> (exn + dist) \<times> 's" where
  "distribution_via_python label db py_float py_int episode_id limit s =
     (case execute_select_p db episode_id limit s of
        (Inl e, s') \<Rightarrow> (Inl e, s')
      | (Inr rows, s') \<Rightarrow>
          (Inr (sorted_by_count (tally label (parse_params_string py_float py_int) rows)), s'))"

definition get_color_distribution_via_python ::
  "'s session \<Rightarrow> (string \<Rightarrow> 'f option) \<Rightarrow> (string \<Rightarrow> int option)
     \<Rightarrow> int \<Rightarrow> int \<Rightarrow> 's \<Rightarrow> (exn + dist) \<times> 's" where
  "get_color_distribution_via_python = distribution_via_python (\<lambda>ps. get_color_hex (color ps))"

definition get_mode_distribution_via_python ::
  "'s session \<Rightarrow> (string \<Rightarrow> 'f option) \<Rightarrow> (string \<Rightarrow> int option)
     \<Rightarrow> int \<Rightarrow> int \<Rightarrow> 's \<Rightarrow> (exn + dist) \<times> 's" where
  "get_mode_distribution_via_python = distribution_via_python (\<lambda>ps. get_mode_name (mode ps))"

text \<open>
  \<^verbatim>\<open>get_comprehensive_statistics\<close>. \<open>view_statistics\<close> is the body of the \<^verbatim>\<open>try\<close>: the three
  view queries in turn, the first exception leaving the block. \<open>python_statistics\<close> is
  the code after the \<^verbatim>\<open>if\<close>: nothing catches an exception there, so it reaches the
  caller. The handler \<^verbatim>\<open>except Exception\<close> prints the exception and goes on to that code.
\<close>

definition view_statistics :: "'s session \<Rightarrow> int \<Rightarrow> 's \<Rightarrow> (exn + stats) \<times> 's" where
  "view_statistics db episode_id s =
     (case get_color_distribution_via_view db episode_id s of
        (Inl e, s1) \<Rightarrow> (Inl e, s1)
      | (Inr color_dist, s1) \<Rightarrow>
     (case get_mode_distribution_via_view db episode_id s1 of
        (Inl e, s2) \<Rightarrow> (Inl e, s2)
      | (Inr mode_dist, s2) \<Rightarrow>
     (case get_font_size_distribution_via_view db episode_id s2 of
        (Inl e, s3) \<Rightarrow> (Inl e, s3)
      | (Inr size_dist, s3) \<Rightarrow>
          (Inr \<lparr> stats_method = ''database_view'', sample_limit = None,
                 color_distribution = color_dist, mode_distribution = mode_dist,
                 font_size_distribution = size_dist \<rparr>, s3))))"

definition python_statistics ::
  "'s session \<Rightarrow> (string \<Rightarrow> 'f option) \<Rightarrow> (string \<Rightarrow> int option)
     \<Rightarrow> int \<Rightarrow> int \<Rightarrow> 's \<Rightarrow> (exn + stats) \<times> 's" where
  "python_statistics db py_float py_int episode_id python_limit s =
     (case get_color_distribution_via_python db py_float py_int episode_id python_limit s of
        (Inl e, s1) \<Rightarrow> (Inl e, s1)
      | (Inr color_dist, s1) \<Rightarrow>
     (case get_mode_distribution_via_python db py_float py_int episode_id python_limit s1 of
        (Inl e, s2) \<Rightarrow> (Inl e, s2)
      | (Inr mode_dist, s2) \<Rightarrow>
     (case execute_select_p db episode_id python_limit s2 of
        (Inl e, s3) \<Rightarrow> (Inl e, s3)
      | (Inr rows, s3) \<Rightarrow>
          (Inr \<lparr> stats_method = ''python_parsing'', sample_limit = Some python_limit,
                 color_distribution = color_dist, mode_distribution = mode_dist,
                 font_size_distribution =
                   sorted_by_count
                     (tally (\<lambda>ps. get_font_size_name (font_size ps))
                        (parse_params_string py_float py_int) rows) \<rparr>, s3))))"

definition get_comprehensive_statistics ::
  "'s session \<Rightarrow> (string \<Rightarrow> 'f option) \<Rightarrow> (string \<Rightarrow> int option)
     \<Rightarrow> int \<Rightarrow> bool \<Rightarrow> int \<Rightarrow> 's \<Rightarrow> (exn + stats) \<times> 's" where
  "get_comprehensive_statistics db py_float py_int episode_id use_view python_limit s =
     (if use_view then
        (case view_statistics db episode_id s of
           (Inr r, s1) \<Rightarrow> (Inr r, s1)
         | (Inl e, s1) \<Rightarrow> python_statistics db py_float py_int episode_id python_limit s1)
      else python_statistics db py_float py_int episode_id python_limit s)"

text \<open>
  Two sessions for the examples. In \<open>no_view_session\<close> the view does not exist and every
  view query raises, while the table can be read. In \<open>failed_tx_session\<close> the state says
  whether the transaction has failed: the view query raises and fails the transaction,
  after which every statement on the session raises.
\<close>

definition no_view_session :: "unit session" where
  "no_view_session =
     \<lparr> execute_view = (\<lambda>col episode_id s. (Inl (Exception ''no such view''), s)),
       execute_select_p = (\<lambda>episode_id limit s.
          (Inr [''23.5,1,25,16777215,1609459200,0,test_id,user_hash_123'', ''1,2,3''], s)) \<rparr>"

definition failed_tx_session :: "bool session" where
  "failed_tx_session =
     \<lparr> execute_view = (\<lambda>col episode_id failed. (Inl (Exception ''no such view''), True)),
       execute_select_p = (\<lambda>episode_id limit failed.
          if failed then (Inl (Exception ''transaction is aborted''), failed)
          else (Inr [''23.5,1,25,16777215,1609459200,0,test_id,user_hash_123''], failed)) \<rparr>"

section \<open>Duplicate resolver: \<^verbatim>\<open>DanmakuService.cleanup_duplicate_danmaku\<close>\<close>

text \<open>
  A row of the table \<^verbatim>\<open>comment\<close>, with the columns these functions read: the primary key
  \<^verbatim>\<open>id\<close>, \<^verbatim>\<open>episode_id\<close>, the text \<^verbatim>\<open>m\<close> (a list of characters of any type \<open>'c\<close>, Python's
  code points) and the time \<^verbatim>\<open>t\<close> in seconds, a \<^verbatim>\<open>DECIMAL(10, 2)\<close>. The arithmetic on times
  and scores, done by Python on \<^verbatim>\<open>float\<close>, is exact arithmetic on rationals here.
\<close>

record 'c comment =
  comment_id :: int
  episode_id :: int
  m :: "'c list"
  t :: rat

definition string_similarity :: "'c list \<Rightarrow> 'c list \<Rightarrow> rat" where
  "string_similarity s1 s2 =
     (if s1 = s2 then 1.0
      else if s1 = [] \<or> s2 = [] then 0.0
      else (let common_chars = set s1 \<inter> set s2;
                all_chars = set s1 \<union> set s2
            in if all_chars \<noteq> {} then of_nat (card common_chars) / of_nat (card all_chars)
               else 0.0))"

definition calculate_danmaku_similarity :: "'c comment \<Rightarrow> 'c comment \<Rightarrow> rat" where
  "calculate_danmaku_similarity danmaku1 danmaku2 =
     (let content_similarity = string_similarity (m danmaku1) (m danmaku2);
          time_diff = \<bar>t danmaku1 - t danmaku2\<bar>;
          time_similarity = max 0 (1 - time_diff / 5.0)
      in content_similarity * 0.8 + time_similarity * 0.2)"

text \<open>
  The search for duplicates. The state of the outer loop is the list \<^verbatim>\<open>duplicates\<close> and the
  set \<^verbatim>\<open>processed\<close> of indices; the inner loop runs over
  \<^verbatim>\<open>enumerate(all_danmaku[i+1:], i+1)\<close> with the state \<^verbatim>\<open>group\<close> and \<^verbatim>\<open>processed\<close>.
\<close>

definition inner_step ::
  "rat \<Rightarrow> 'c comment \<Rightarrow> nat \<times> 'c comment \<Rightarrow> 'c comment list \<times> nat set
     \<Rightarrow> 'c comment list \<times> nat set" where
  "inner_step similarity_threshold danmaku1 jd st =
     (case jd of (j, danmaku2) \<Rightarrow>
      case st of (grp, processed) \<Rightarrow>
        if j \<in> processed then (grp, processed)
        else if calculate_danmaku_similarity danmaku1 danmaku2 \<ge> similarity_threshold
             then (grp @ [danmaku2], insert j processed)
             else (grp, processed))"

definition outer_step ::
  "rat \<Rightarrow> 'c comment list \<Rightarrow> nat \<times> 'c comment \<Rightarrow> 'c comment list list \<times> nat set
     \<Rightarrow> 'c comment list list \<times> nat set" where
  "outer_step similarity_threshold all_danmaku id1 st =
     (case id1 of (i, danmaku1) \<Rightarrow>
      case st of (duplicates, processed) \<Rightarrow>
        if i \<in> processed then (duplicates, processed)
        else
          (case fold (inner_step similarity_threshold danmaku1)
                  (enumerate (i + 1) (drop (i + 1) all_danmaku)) ([danmaku1], processed) of
             (grp, processed') \<Rightarrow>
               (if length grp > 1 then duplicates @ [grp] else duplicates,
                insert i processed')))"

text \<open>
  The groups the function goes on to delete from; with fewer than 2 comments it returns
  before the search and deletes nothing.
\<close>

definition find_duplicates :: "rat \<Rightarrow> 'c comment list \<Rightarrow> 'c comment list list" where
  "find_duplicates similarity_threshold all_danmaku =
     (if length all_danmaku < 2 then []
      else fst (fold (outer_step similarity_threshold all_danmaku)
                  (enumerate 0 all_danmaku) ([], {})))"

text \<open>
  The grouping policy in the words of the specification: take the comments in order;
  the first one that is left is the anchor, its group is the anchor followed by every
  later comment that is left and whose similarity to the anchor reaches the threshold;
  the members are left no longer; a group of the anchor alone is not returned; repeat.
\<close>

function greedy_groups :: "rat \<Rightarrow> 'c comment list \<Rightarrow> 'c comment list list" where
  "greedy_groups thr [] = []"
| "greedy_groups thr (anchor # later) =
     (let members = filter (\<lambda>b. calculate_danmaku_similarity anchor b \<ge> thr) later;
          remaining = filter (\<lambda>b. \<not> calculate_danmaku_similarity anchor b \<ge> thr) later
      in (if members = [] then [] else [anchor # members]) @ greedy_groups thr remaining)"
  by pat_completeness auto
termination
  by (relation "measure (\<lambda>(thr, xs). length xs)") (auto simp: less_Suc_eq_le)

text \<open>The inner and outer loop over a list of indexed comments, for the proofs.\<close>

fun outer_pairs ::
  "rat \<Rightarrow> (nat \<times> 'c comment) list \<Rightarrow> 'c comment list list \<times> nat set
     \<Rightarrow> 'c comment list list \<times> nat set" where
  "outer_pairs thr [] st = st"
| "outer_pairs thr ((i, danmaku1) # rest) (duplicates, processed) =
     (if i \<in> processed then outer_pairs thr rest (duplicates, processed)
      else
        (case fold (inner_step thr danmaku1) rest ([danmaku1], processed) of
           (grp, processed') \<Rightarrow>
             outer_pairs thr rest
               (if length grp > 1 then duplicates @ [grp] else duplicates,
                insert i processed')))"

text \<open>The example of the specification: three comments with the text \<^verbatim>\<open>hi\<close>.\<close>

definition comment_A :: "char comment" where
  "comment_A = \<lparr> comment_id = 1, episode_id = 1, m = ''hi'', t = 0 \<rparr>"

definition comment_B :: "char comment" where
  "comment_B = \<lparr> comment_id = 2, episode_id = 1, m = ''hi'', t = 1 \<rparr>"

definition comment_C :: "char comment" where
  "comment_C = \<lparr> comment_id = 3, episode_id = 1, m = ''hi'', t = 100 \<rparr>"

section \<open>Density detector: \<^verbatim>\<open>CommentRepository.get_popular_danmaku\<close>\<close>

text \<open>
  The table \<^verbatim>\<open>comment\<close> is the list of its rows in the order the storage returns them
  when a query has no \<^verbatim>\<open>ORDER BY\<close>. The first statement counts, for each row \<^verbatim>\<open>c1\<close> of the
  episode, the rows \<^verbatim>\<open>c2\<close> joined to it (\<^verbatim>\<open>COUNT(c2.id)\<close> over the left join), orders by
  \<^verbatim>\<open>nearby_count DESC, c1.t ASC\<close> and keeps the first \<^verbatim>\<open>limit\<close> rows. Rows equal in both keys
  are left in the order of the table (SQL leaves their order open).
\<close>

definition nearby_count :: "'c comment list \<Rightarrow> 'c comment \<Rightarrow> nat" where
  "nearby_count table c1 =
     length (filter (\<lambda>c2. episode_id c2 = episode_id c1
                          \<and> t c1 - 5 \<le> t c2 \<and> t c2 \<le> t c1 + 5
                          \<and> comment_id c2 \<noteq> comment_id c1) table)"

definition popular_rows :: "'c comment list \<Rightarrow> int \<Rightarrow> nat \<Rightarrow> 'c comment list" where
  "popular_rows table ep limit =
     take limit
       (sort_key (\<lambda>c1. (- int (nearby_count table c1), t c1))
          (filter (\<lambda>c1. episode_id c1 = ep) table))"

text \<open>
  Then the identifiers of these rows are taken (\<^verbatim>\<open>row[0]\<close>), and the comments are read
  again with \<^verbatim>\<open>select(Comment).where(Comment.id.in_(comment_ids))\<close>, a query without
  \<^verbatim>\<open>ORDER BY\<close>.
\<close>

definition get_popular_danmaku :: "'c comment list \<Rightarrow> int \<Rightarrow> nat \<Rightarrow> 'c comment list" where
  "get_popular_danmaku table ep limit =
     (let comment_ids = map comment_id (popular_rows table ep limit)
      in if comment_ids \<noteq> [] then filter (\<lambda>c. comment_id c \<in> set comment_ids) table
         else [])"

text \<open>The ranking the first statement computes, as a predicate on a result list.\<close>

definition ranked :: "'c comment list \<Rightarrow> 'c comment list \<Rightarrow> bool" where
  "ranked table cs =
     sorted (map (\<lambda>c1. (- int (nearby_count table c1), t c1)) cs)"

definition popular_table :: "char comment list" where
  "popular_table =
     [\<lparr> comment_id = 1, episode_id = 1, m = ''a'', t = 0 \<rparr>,
      \<lparr> comment_id = 2, episode_id = 1, m = ''b'', t = 10 \<rparr>,
      \<lparr> comment_id = 3, episode_id = 1, m = ''c'', t = 11 \<rparr>]"

section \<open>Properties of the codec\<close>

subsection \<open>Splitting and joining\<close>

lemma split_on_not_Nil: "split_on d s \<noteq> []"
  by (induction s) (auto split: list.splits)

lemma split_on_no_sep: "d \<notin> set p \<Longrightarrow> split_on d p = [p]"
  by (induction p) auto

lemma split_on_append_sep:
  "d \<notin> set p \<Longrightarrow> split_on d (p @ d # s) = p # split_on d s"
  by (induction p) auto

lemma split_on_join_on:
  "ps \<noteq> [] \<Longrightarrow> (\<And>p. p \<in> set ps \<Longrightarrow> d \<notin> set p) \<Longrightarrow> split_on d (join_on d ps) = ps"
proof (induction d ps rule: join_on.induct)
  case (1 d)
  then show ?case by simp
next
  case (2 d p)
  then show ?case by (simp add: split_on_no_sep)
next
  case (3 d p q ps)
  have "split_on d (join_on d (q # ps)) = q # ps"
    using 3 by simp
  moreover have "d \<notin> set p" using 3 by simp
  ultimately show ?case by (simp add: split_on_append_sep)
qed

subsection \<open>Hexadecimal digits\<close>

lemma hex_digit_cases:
  assumes "d < 16"
  shows "is_hex_upper (hex_digit d) \<and> hex_char_val (hex_digit d) = d"
  using assms
  by (auto simp: eval_nat_numeral less_Suc_eq hex_digit_def is_hex_upper_def hex_char_val_def)

lemma to_hex_upper_length: "n < 16 ^ k \<Longrightarrow> 0 < k \<Longrightarrow> length (to_hex_upper n) \<le> k"
proof (induction n arbitrary: k rule: to_hex_upper.induct)
  case (1 n)
  show ?case
  proof (cases "n < 16")
    case True
    then show ?thesis using 1(3) by (subst to_hex_upper.simps) simp
  next
    case False
    obtain j where k: "k = Suc j" using 1(3) by (cases k) auto
    have "j \<noteq> 0" using False 1(2) k by (cases j) auto
    moreover have "n div 16 < 16 ^ j" using 1(2) k by (simp add: less_mult_imp_div_less mult.commute)
    ultimately have "length (to_hex_upper (n div 16)) \<le> j"
      using 1(1)[OF False] by simp
    then show ?thesis using False k by (subst to_hex_upper.simps) simp
  qed
qed

lemma to_hex_upper_digits: "list_all is_hex_upper (to_hex_upper n)"
proof (induction n rule: to_hex_upper.induct)
  case (1 n)
  show ?case
  proof (cases "n < 16")
    case True
    then show ?thesis by (subst to_hex_upper.simps) (simp add: hex_digit_cases)
  next
    case False
    then show ?thesis using 1 by (subst to_hex_upper.simps) (simp add: hex_digit_cases)
  qed
qed

lemma hex_val_snoc: "hex_val (ds @ [c]) = hex_val ds * 16 + hex_char_val c"
  by (simp add: hex_val_def)

lemma hex_val_to_hex_upper: "hex_val (to_hex_upper n) = n"
proof (induction n rule: to_hex_upper.induct)
  case (1 n)
  show ?case
  proof (cases "n < 16")
    case True
    then show ?thesis by (subst to_hex_upper.simps) (simp add: hex_val_def hex_digit_cases)
  next
    case False
    then show ?thesis using 1 by (subst to_hex_upper.simps) (simp add: hex_val_snoc hex_digit_cases)
  qed
qed

lemma hex_val_zero_pad: "hex_val (replicate k CHR ''0'' @ ds) = hex_val ds"
proof -
  have "foldl (\<lambda>acc c. acc * 16 + hex_char_val c) 0 (replicate k CHR ''0'') = 0"
    by (induction k) (simp_all add: hex_char_val_def)
  then show ?thesis by (simp add: hex_val_def)
qed

lemma replicate_numeral: "replicate (numeral k) x = x # replicate (pred_numeral k) x"
  by (simp add: numeral_eq_Suc)

lemmas reader_defs = py_float_dec_def py_int_ascii_def strip_def is_space_def unsigned_dec_def
  is_digit_def digit_val_def

lemmas color_hex_defs = get_color_hex_def format_06X_def hex_digit_def to_hex_upper.simps
  replicate_numeral

lemma parse_params_string_Some_iff:
  "(parse_params_string rf ri s = Some r) =
     (8 \<le> length (split_on CHR '','' s)
      \<and> rf (split_on CHR '','' s ! 0) = Some (time r)
      \<and> ri (split_on CHR '','' s ! 1) = Some (mode r)
      \<and> ri (split_on CHR '','' s ! 2) = Some (font_size r)
      \<and> ri (split_on CHR '','' s ! 3) = Some (color r)
      \<and> ri (split_on CHR '','' s ! 4) = Some (timestamp r)
      \<and> ri (split_on CHR '','' s ! 5) = Some (pool r)
      \<and> danmaku_id r = split_on CHR '','' s ! 6
      \<and> user_hash r = split_on CHR '','' s ! 7)"
  by (cases r) (auto simp: parse_params_string_def Let_def bind_eq_Some_conv)

lemma parse_params_string_first8:
  assumes "8 \<le> length (split_on CHR '','' s)" "8 \<le> length (split_on CHR '','' s')"
    and "take 8 (split_on CHR '','' s) = take 8 (split_on CHR '','' s')"
  shows "parse_params_string rf ri s = parse_params_string rf ri s'"
proof -
  have "\<And>k. k < 8 \<Longrightarrow> split_on CHR '','' s ! k = split_on CHR '','' s' ! k"
    using assms(3) by (metis nth_take)
  then show ?thesis
    using assms(1,2) by (simp add: parse_params_string_def Let_def)
qed


text \<open>
  Claim C1. \<^verbatim>\<open>parse_params_string\<close> returns the complete record exactly when the text
  splits on commas into at least 8 pieces, the first piece is read by \<^verbatim>\<open>float\<close> and the
  pieces 2 to 6 are read by \<^verbatim>\<open>int\<close>; every field of the record is then fixed by the first
  8 pieces. In every other case (fewer than 8 pieces, or one numeric piece not read) the
  result is the failure value, never a part of a record. Pieces after the 8th change
  nothing: the text made of the first 8 pieces decodes to the same result.
\<close>

theorem parse_params_string_complete_iff:
  "((parse_params_string rf ri s = Some r) =
     (8 \<le> length (split_on CHR '','' s)
      \<and> rf (split_on CHR '','' s ! 0) = Some (time r)
      \<and> ri (split_on CHR '','' s ! 1) = Some (mode r)
      \<and> ri (split_on CHR '','' s ! 2) = Some (font_size r)
      \<and> ri (split_on CHR '','' s ! 3) = Some (color r)
      \<and> ri (split_on CHR '','' s ! 4) = Some (timestamp r)
      \<and> ri (split_on CHR '','' s ! 5) = Some (pool r)
      \<and> danmaku_id r = split_on CHR '','' s ! 6
      \<and> user_hash r = split_on CHR '','' s ! 7))
   \<and> ((parse_params_string rf ri s = None) =
     (length (split_on CHR '','' s) < 8
      \<or> rf (split_on CHR '','' s ! 0) = None
      \<or> (\<exists>k\<in>{1, 2, 3, 4, 5}. ri (split_on CHR '','' s ! k) = None)))
   \<and> (8 \<le> length fs \<and> (\<forall>f\<in>set fs. CHR '','' \<notin> set f) \<longrightarrow>
        parse_params_string rf ri (join_on CHR '','' fs)
          = parse_params_string rf ri (join_on CHR '','' (take 8 fs)))"
proof (intro conjI impI)
  show "(parse_params_string rf ri s = Some r) =
     (8 \<le> length (split_on CHR '','' s)
      \<and> rf (split_on CHR '','' s ! 0) = Some (time r)
      \<and> ri (split_on CHR '','' s ! 1) = Some (mode r)
      \<and> ri (split_on CHR '','' s ! 2) = Some (font_size r)
      \<and> ri (split_on CHR '','' s ! 3) = Some (color r)
      \<and> ri (split_on CHR '','' s ! 4) = Some (timestamp r)
      \<and> ri (split_on CHR '','' s ! 5) = Some (pool r)
      \<and> danmaku_id r = split_on CHR '','' s ! 6
      \<and> user_hash r = split_on CHR '','' s ! 7)"
    by (rule parse_params_string_Some_iff)
next
  show "(parse_params_string rf ri s = None) =
     (length (split_on CHR '','' s) < 8
      \<or> rf (split_on CHR '','' s ! 0) = None
      \<or> (\<exists>k\<in>{1, 2, 3, 4, 5}. ri (split_on CHR '','' s ! k) = None))"
    by (auto simp: parse_params_string_def Let_def bind_eq_None_conv)
next
  assume h: "8 \<le> length fs \<and> (\<forall>f\<in>set fs. CHR '','' \<notin> set f)"
  then have ne: "fs \<noteq> []" "take 8 fs \<noteq> []" by auto
  have a: "split_on CHR '','' (join_on CHR '','' fs) = fs"
    using h ne by (intro split_on_join_on) auto
  have b: "split_on CHR '','' (join_on CHR '','' (take 8 fs)) = take 8 fs"
    using h ne by (intro split_on_join_on) (auto dest: in_set_takeD)
  show "parse_params_string rf ri (join_on CHR '','' fs)
          = parse_params_string rf ri (join_on CHR '','' (take 8 fs))"
    using h by (intro parse_params_string_first8) (simp_all add: a b)
qed


theorem parse_params_string_complete_iff_witness:
  "parse_params_string py_float_dec py_int_ascii
      ''23.5,1,25,16777215,1609459200,0,test_id,user_hash_123''
     = Some \<lparr> time = 47 / 2, mode = 1, font_size = 25, color = 16777215,
              timestamp = 1609459200, pool = 0, danmaku_id = ''test_id'',
              user_hash = ''user_hash_123'' \<rparr>
   \<and> parse_params_string py_float_dec py_int_ascii ''1,2,3'' = None
   \<and> parse_params_string py_float_dec py_int_ascii
        (join_on CHR '','' [''0.5'', ''4'', ''18'', ''255'', ''7'', ''1'', ''id'', ''h'', ''extra'', ''more''])
     = parse_params_string py_float_dec py_int_ascii
        (join_on CHR '','' (take 8 [''0.5'', ''4'', ''18'', ''255'', ''7'', ''1'', ''id'', ''h'', ''extra'', ''more'']))"
  using parse_params_string_complete_iff
          [of py_float_dec py_int_ascii
              "''23.5,1,25,16777215,1609459200,0,test_id,user_hash_123''"
              "\<lparr> time = 47 / 2, mode = 1, font_size = 25, color = 16777215,
                 timestamp = 1609459200, pool = 0, danmaku_id = ''test_id'',
                 user_hash = ''user_hash_123'' \<rparr>"
              "[''0.5'', ''4'', ''18'', ''255'', ''7'', ''1'', ''id'', ''h'', ''extra'', ''more'']"]
        parse_params_string_complete_iff
          [of py_float_dec py_int_ascii "''1,2,3''" undefined "[]"]
  by (simp add: reader_defs)

text \<open>
  Claim C3 as stated fails: a text of exactly 7 pieces whose numeric pieces are all read
  is a decode failure, because the guard asks for at least 8 pieces before any field is
  looked at.
\<close>

theorem parse_params_string_seven_fields_counterexample:
  "length (split_on CHR '','' ''23.5,1,25,16777215,1609459200,0,test_id'') = 7
   \<and> py_float_dec ''23.5'' = Some (47 / 2)
   \<and> map py_int_ascii [''1'', ''25'', ''16777215'', ''1609459200'', ''0'']
        = [Some 1, Some 25, Some 16777215, Some 1609459200, Some 0]
   \<and> parse_params_string py_float_dec py_int_ascii
        ''23.5,1,25,16777215,1609459200,0,test_id'' = None"
  by (simp add: parse_params_string_def reader_defs)

text \<open>
  Claim C3, amended. All 8 pieces are mandatory: a text with fewer than 8 pieces
  (so also one with exactly 7) is a decode failure, and whenever decoding succeeds the
  \<^verbatim>\<open>user_hash\<close> is the 8th piece as it stands.
\<close>

theorem parse_params_string_needs_eight_fields:
  "(length (split_on CHR '','' s) < 8 \<longrightarrow> parse_params_string rf ri s = None)
   \<and> (parse_params_string rf ri s = Some r \<longrightarrow>
        8 \<le> length (split_on CHR '','' s) \<and> user_hash r = split_on CHR '','' s ! 7)"
  by (simp add: parse_params_string_Some_iff) (simp add: parse_params_string_def)

theorem parse_params_string_needs_eight_fields_witness:
  "parse_params_string py_float_dec py_int_ascii ''0,1,25,255,0,0,id'' = None
   \<and> user_hash \<lparr> time = 0, mode = 1, font_size = 25, color = 255, timestamp = 0,
                  pool = 0, danmaku_id = ''id'', user_hash = ''abc'' \<rparr>
       = split_on CHR '','' ''0,1,25,255,0,0,id,abc'' ! 7"
  using parse_params_string_needs_eight_fields
          [of "''0,1,25,255,0,0,id''" py_float_dec py_int_ascii undefined]
        parse_params_string_needs_eight_fields
          [of "''0,1,25,255,0,0,id,abc''" py_float_dec py_int_ascii
              "\<lparr> time = 0, mode = 1, font_size = 25, color = 255, timestamp = 0,
                 pool = 0, danmaku_id = ''id'', user_hash = ''abc'' \<rparr>"]
  by (simp add: parse_params_string_def reader_defs)

text \<open>
  Claim C4 as stated fails: a colour above \<^verbatim>\<open>0xFFFFFF\<close> and a negative colour both
  decode, to records that carry them unchanged.
\<close>

theorem parse_params_string_color_range_counterexample:
  "parse_params_string py_float_dec py_int_ascii ''0,1,25,16777216,0,0,a,b''
     = Some \<lparr> time = 0, mode = 1, font_size = 25, color = 16777216, timestamp = 0,
              pool = 0, danmaku_id = ''a'', user_hash = ''b'' \<rparr>
   \<and> (16777216 :: int) > 0xFFFFFF
   \<and> parse_params_string py_float_dec py_int_ascii ''0,1,25,-1,0,0,a,b''
     = Some \<lparr> time = 0, mode = 1, font_size = 25, color = - 1, timestamp = 0,
              pool = 0, danmaku_id = ''a'', user_hash = ''b'' \<rparr>"
  by (simp add: parse_params_string_def reader_defs)

text \<open>
  Claim C4, amended. Decoding puts no bound on the colour: the decoded colour is exactly
  the integer read from the 4th piece, never a shortened one, and whatever integer that
  piece reads as (negative or above \<^verbatim>\<open>0xFFFFFF\<close> included), decoding succeeds with it as
  soon as there are 8 pieces and the other numeric pieces are read.
\<close>

theorem parse_params_string_color_unchecked:
  "(parse_params_string rf ri s = Some r \<longrightarrow> ri (split_on CHR '','' s ! 3) = Some (color r))
   \<and> (8 \<le> length (split_on CHR '','' s)
        \<and> rf (split_on CHR '','' s ! 0) = Some tm
        \<and> ri (split_on CHR '','' s ! 1) = Some md
        \<and> ri (split_on CHR '','' s ! 2) = Some fs
        \<and> ri (split_on CHR '','' s ! 3) = Some c
        \<and> ri (split_on CHR '','' s ! 4) = Some ts
        \<and> ri (split_on CHR '','' s ! 5) = Some pl
       \<longrightarrow> (\<exists>r'. parse_params_string rf ri s = Some r' \<and> color r' = c))"
proof (intro conjI impI)
  assume "parse_params_string rf ri s = Some r"
  then show "ri (split_on CHR '','' s ! 3) = Some (color r)"
    by (simp add: parse_params_string_Some_iff)
next
  assume "8 \<le> length (split_on CHR '','' s)
        \<and> rf (split_on CHR '','' s ! 0) = Some tm
        \<and> ri (split_on CHR '','' s ! 1) = Some md
        \<and> ri (split_on CHR '','' s ! 2) = Some fs
        \<and> ri (split_on CHR '','' s ! 3) = Some c
        \<and> ri (split_on CHR '','' s ! 4) = Some ts
        \<and> ri (split_on CHR '','' s ! 5) = Some pl"
  then show "\<exists>r'. parse_params_string rf ri s = Some r' \<and> color r' = c"
    by (simp add: parse_params_string_def Let_def)
qed

theorem parse_params_string_color_unchecked_witness:
  "py_int_ascii (split_on CHR '','' ''0,1,25,4294967295,0,0,a,b'' ! 3)
     = Some (color \<lparr> time = 0 :: rat, mode = 1, font_size = 25, color = 4294967295,
                      timestamp = 0, pool = 0, danmaku_id = ''a'', user_hash = ''b'' \<rparr>)
   \<and> (\<exists>r'. parse_params_string py_float_dec py_int_ascii ''0,1,25,4294967295,0,0,a,b'' = Some r'
            \<and> color r' = 4294967295)"
  using parse_params_string_color_unchecked
          [of py_float_dec py_int_ascii "''0,1,25,4294967295,0,0,a,b''"
              "\<lparr> time = 0, mode = 1, font_size = 25, color = 4294967295,
                 timestamp = 0, pool = 0, danmaku_id = ''a'', user_hash = ''b'' \<rparr>"
              0 1 25 4294967295 0 0]
  by (simp add: parse_params_string_def reader_defs)

text \<open>
  Claim C5 as stated fails: \<^verbatim>\<open>16777216\<close> is a 32-bit unsigned value and is written with
  7 hexadecimal digits, since the format gives a minimal width only.
\<close>

theorem get_color_hex_uint32_counterexample:
  "(0 :: int) \<le> 16777216 \<and> (16777216 :: int) \<le> 0xFFFFFFFF
   \<and> get_color_hex 16777216 = ''#1000000''
   \<and> length (get_color_hex 16777216) = 8"
  by (simp add: color_hex_defs)

text \<open>
  Claim C5, amended. \<^verbatim>\<open>get_color_hex\<close> never fails, and for every colour from \<^verbatim>\<open>0\<close> to
  \<^verbatim>\<open>0xFFFFFF\<close> it returns \<^verbatim>\<open>#\<close> followed by exactly 6 upper-case hexadecimal digits, padded
  with zeros, whose value is the colour; so \<^verbatim>\<open>16777215\<close> gives \<^verbatim>\<open>#FFFFFF\<close> and \<^verbatim>\<open>255\<close> gives
  \<^verbatim>\<open>#0000FF\<close>.
\<close>

theorem get_color_hex_24bit:
  assumes "0 \<le> c" and "c \<le> 0xFFFFFF"
  shows "(\<exists>ds. get_color_hex c = CHR ''#'' # ds \<and> length ds = 6 \<and> list_all is_hex_upper ds
            \<and> int (hex_val ds) = c)
         \<and> get_color_hex 16777215 = ''#FFFFFF'' \<and> get_color_hex 255 = ''#0000FF''"
proof -
  let ?h = "to_hex_upper (nat \<bar>c\<bar>)"
  let ?ds = "replicate (6 - length ?h) CHR ''0'' @ ?h"
  have "nat \<bar>c\<bar> < 16 ^ 6" using assms by simp
  then have len: "length ?h \<le> 6" by (rule to_hex_upper_length) simp
  have "get_color_hex c = CHR ''#'' # ?ds"
    using assms by (simp add: get_color_hex_def format_06X_def Let_def)
  moreover have "length ?ds = 6" using len by simp
  moreover have "list_all is_hex_upper ?ds"
    using to_hex_upper_digits [of "nat \<bar>c\<bar>"]
    by (auto simp: list_all_iff is_hex_upper_def)
  moreover have "int (hex_val ?ds) = c"
    using assms by (simp add: hex_val_zero_pad hex_val_to_hex_upper)
  moreover have "get_color_hex 16777215 = ''#FFFFFF''" "get_color_hex 255 = ''#0000FF''"
    by (simp_all add: color_hex_defs)
  ultimately show ?thesis by blast
qed



theorem get_color_hex_24bit_witness:
  "(0 :: int) \<le> 65280 \<and> (65280 :: int) \<le> 0xFFFFFF
   \<and> (\<exists>ds. get_color_hex 65280 = CHR ''#'' # ds \<and> length ds = 6 \<and> list_all is_hex_upper ds
            \<and> int (hex_val ds) = 65280)"
  using get_color_hex_24bit [of 65280] by simp

section \<open>Properties of the statistics\<close>

text \<open>
  Claim C2 as stated fails: when the view query raises and the statement that follows on
  the same session raises too (here because the transaction has failed), the code after
  the handler is not protected and the call ends with an exception.
\<close>

theorem get_comprehensive_statistics_fallback_counterexample:
  "fst (view_statistics failed_tx_session 1 False) = Inl (Exception ''no such view'')
   \<and> fst (get_comprehensive_statistics failed_tx_session py_float_dec py_int_ascii 1 True 1000 False)
       = Inl (Exception ''transaction is aborted'')"
  by (simp add: get_comprehensive_statistics_def view_statistics_def python_statistics_def
      get_color_distribution_via_view_def distribution_via_view_def
      get_color_distribution_via_python_def distribution_via_python_def failed_tx_session_def)

text \<open>
  Claim C2, amended. When the view path raises an exception, that exception is dropped
  and the result of the call is the result of the Python path, whatever the exception
  was. A result the Python path returns is tagged \<^verbatim>\<open>python_parsing\<close> with \<^verbatim>\<open>sample_limit\<close>
  equal to \<^verbatim>\<open>python_limit\<close>; and it does return one (no exception reaches the caller)
  whenever its own three reads of the table succeed.
\<close>

theorem get_comprehensive_statistics_fallback:
  assumes "view_statistics db ep s = (Inl e, s1)"
  shows "get_comprehensive_statistics db rf ri ep True plimit s = python_statistics db rf ri ep plimit s1
   \<and> (\<forall>r s'. python_statistics db rf ri ep plimit s1 = (Inr r, s') \<longrightarrow>
          stats_method r = ''python_parsing'' \<and> sample_limit r = Some plimit)
   \<and> (execute_select_p db ep plimit s1 = (Inr rows1, s2)
        \<and> execute_select_p db ep plimit s2 = (Inr rows2, s3)
        \<and> execute_select_p db ep plimit s3 = (Inr rows3, s4) \<longrightarrow>
        (\<exists>r. get_comprehensive_statistics db rf ri ep True plimit s = (Inr r, s4)
            \<and> stats_method r = ''python_parsing'' \<and> sample_limit r = Some plimit))"
proof (intro conjI allI impI)
  show eq: "get_comprehensive_statistics db rf ri ep True plimit s = python_statistics db rf ri ep plimit s1"
    using assms by (simp add: get_comprehensive_statistics_def)
  show "stats_method r = ''python_parsing''" "sample_limit r = Some plimit"
    if "python_statistics db rf ri ep plimit s1 = (Inr r, s')" for r s'
    using that
    by (auto simp: python_statistics_def split: prod.splits sum.splits)
  show "\<exists>r. get_comprehensive_statistics db rf ri ep True plimit s = (Inr r, s4)
            \<and> stats_method r = ''python_parsing'' \<and> sample_limit r = Some plimit"
    if "execute_select_p db ep plimit s1 = (Inr rows1, s2)
        \<and> execute_select_p db ep plimit s2 = (Inr rows2, s3)
        \<and> execute_select_p db ep plimit s3 = (Inr rows3, s4)"
    using that unfolding eq
    by (simp add: python_statistics_def get_color_distribution_via_python_def
        get_mode_distribution_via_python_def distribution_via_python_def)
qed

theorem get_comprehensive_statistics_fallback_witness:
  "view_statistics no_view_session 1 () = (Inl (Exception ''no such view''), ())
   \<and> (\<exists>r. get_comprehensive_statistics no_view_session py_float_dec py_int_ascii 1 True 1000 ()
            = (Inr r, ())
          \<and> stats_method r = ''python_parsing'' \<and> sample_limit r = Some 1000)"
proof -
  have h: "view_statistics no_view_session 1 () = (Inl (Exception ''no such view''), ())"
    by (simp add: view_statistics_def get_color_distribution_via_view_def
        distribution_via_view_def no_view_session_def)
  have sel: "execute_select_p no_view_session 1 1000 ()
      = (Inr [''23.5,1,25,16777215,1609459200,0,test_id,user_hash_123'', ''1,2,3''], ())"
    by (simp add: no_view_session_def)
  have "\<exists>r. get_comprehensive_statistics no_view_session py_float_dec py_int_ascii 1 True 1000 ()
            = (Inr r, ())
          \<and> stats_method r = ''python_parsing'' \<and> sample_limit r = Some 1000"
    using get_comprehensive_statistics_fallback [OF h, where plimit = 1000
        and rf = py_float_dec and ri = py_int_ascii and ?s2.0 = "()" and ?s3.0 = "()" and ?s4.0 = "()"
        and ?rows1.0 = "[''23.5,1,25,16777215,1609459200,0,test_id,user_hash_123'', ''1,2,3'']"
        and ?rows2.0 = "[''23.5,1,25,16777215,1609459200,0,test_id,user_hash_123'', ''1,2,3'']"
        and ?rows3.0 = "[''23.5,1,25,16777215,1609459200,0,test_id,user_hash_123'', ''1,2,3'']"]
      sel
    by blast
  then show ?thesis using h by blast
qed

section \<open>Properties of the duplicate resolver\<close>

subsection \<open>The loops compute the greedy grouping\<close>

lemma fold_inner_step:
  "distinct (map fst js) \<Longrightarrow>
   fold (inner_step thr d1) js (g, P) =
     (g @ map snd (filter (\<lambda>(j, b). j \<notin> P \<and> thr \<le> calculate_danmaku_similarity d1 b) js),
      P \<union> fst ` set (filter (\<lambda>(j, b). j \<notin> P \<and> thr \<le> calculate_danmaku_similarity d1 b) js))"
proof (induction js arbitrary: g P)
  case Nil
  then show ?case by simp
next
  case (Cons jb js)
  obtain j b where jb: "jb = (j, b)" by (cases jb)
  have dist: "distinct (map fst js)" and fresh: "j \<notin> fst ` set js"
    using Cons.prems jb by auto
  have same: "filter (\<lambda>(j', b'). j' \<notin> insert j P \<and> thr \<le> calculate_danmaku_similarity d1 b') js
            = filter (\<lambda>(j', b'). j' \<notin> P \<and> thr \<le> calculate_danmaku_similarity d1 b') js"
    using fresh by (intro filter_cong) (auto simp: image_iff)
  show ?case
  proof (cases "j \<in> P")
    case True
    then show ?thesis using Cons.IH[OF dist] jb by (simp add: inner_step_def)
  next
    case False
    show ?thesis
    proof (cases "thr \<le> calculate_danmaku_similarity d1 b")
      case True
      then show ?thesis
        using Cons.IH[OF dist, of "g @ [b]" "insert j P", unfolded same] jb False
        by (simp add: inner_step_def)
    next
      case False
      then show ?thesis using Cons.IH[OF dist] jb \<open>j \<notin> P\<close> by (simp add: inner_step_def)
    qed
  qed
qed

lemma outer_pairs_greedy:
  "distinct (map fst js) \<Longrightarrow>
   fst (outer_pairs thr js (dups, P)) =
     dups @ greedy_groups thr (map snd (filter (\<lambda>(j, b). j \<notin> P) js))"
proof (induction js arbitrary: dups P)
  case Nil
  then show ?case by simp
next
  case (Cons id1 js)
  obtain i d1 where id1: "id1 = (i, d1)" by (cases id1)
  have dist: "distinct (map fst js)" and fresh: "i \<notin> fst ` set js"
    using Cons.prems id1 by auto
  show ?case
  proof (cases "i \<in> P")
    case True
    then show ?thesis using Cons.IH[OF dist] id1 by simp
  next
    case False
    let ?sim = "\<lambda>b. thr \<le> calculate_danmaku_similarity d1 b"
    let ?F = "filter (\<lambda>(j, b). j \<notin> P \<and> ?sim b) js"
    define U where "U = map snd (filter (\<lambda>(j, b). j \<notin> P) js)"
    define P' where "P' = P \<union> fst ` set ?F"
    define M where "M = filter ?sim U"
    define R where "R = filter (\<lambda>b. \<not> ?sim b) U"
    have members: "map snd ?F = M"
      unfolding M_def U_def
      by (simp add: filter_map comp_def case_prod_beta cong: filter_cong)
    have inner: "fold (inner_step thr d1) js ([d1], P) = (d1 # M, P')"
      using fold_inner_step[OF dist, of thr d1 "[d1]" P] members by (simp add: P'_def)
    have "filter (\<lambda>(j, b). j \<notin> insert i P') js = filter (\<lambda>(j, b). j \<notin> P \<and> \<not> ?sim b) js"
    proof (intro filter_cong refl)
      fix x assume x: "x \<in> set js"
      obtain j b where jb: "x = (j, b)" by (cases x)
      have "j \<noteq> i" using fresh x jb by force
      moreover have "j \<in> fst ` set ?F \<longleftrightarrow> j \<notin> P \<and> ?sim b"
      proof
        assume "j \<in> fst ` set ?F"
        then obtain b' where b': "(j, b') \<in> set js" "j \<notin> P" "?sim b'" by auto
        then have "b' = b" using dist x jb by (meson eq_key_imp_eq_value)
        then show "j \<notin> P \<and> ?sim b" using b' by simp
      next
        assume "j \<notin> P \<and> ?sim b"
        then show "j \<in> fst ` set ?F" using x jb by force
      qed
      ultimately show "(case x of (j, b) \<Rightarrow> j \<notin> insert i P')
                     = (case x of (j, b) \<Rightarrow> j \<notin> P \<and> \<not> ?sim b)"
        using jb by (auto simp: P'_def)
    qed
    then have rest: "map snd (filter (\<lambda>(j, b). j \<notin> insert i P') js) = R"
      unfolding R_def U_def
      by (simp add: filter_map comp_def case_prod_beta cong: filter_cong)
    have IH': "fst (outer_pairs thr js (dups', insert i P')) = dups' @ greedy_groups thr R" for dups'
      using Cons.IH[OF dist, of dups' "insert i P'"] rest by simp
    have unproc: "map snd (filter (\<lambda>(j, b). j \<notin> P) (id1 # js)) = d1 # U"
      using False id1 by (simp add: U_def)
    have unfold: "outer_pairs thr (id1 # js) (dups, P)
                 = outer_pairs thr js (if M \<noteq> [] then dups @ [d1 # M] else dups, insert i P')"
      using False id1 inner by (cases M) simp_all
    have "greedy_groups thr (d1 # U) = (if M = [] then [] else [d1 # M]) @ greedy_groups thr R"
      by (simp add: M_def R_def Let_def)
    then show ?thesis
      unfolding unproc unfold IH' by simp
  qed
qed

lemma fold_outer_step_pairs:
  "fold (outer_step thr xs) (enumerate i (drop i xs)) st
     = outer_pairs thr (enumerate i (drop i xs)) st"
proof (induction "length xs - i" arbitrary: i st)
  case 0
  then show ?case by simp
next
  case (Suc n)
  then have i: "i < length xs" by simp
  have step: "enumerate i (drop i xs) = (i, xs ! i) # enumerate (Suc i) (drop (Suc i) xs)"
    using i by (simp add: Cons_nth_drop_Suc[symmetric])
  have IH: "\<And>st. fold (outer_step thr xs) (enumerate (Suc i) (drop (Suc i) xs)) st
     = outer_pairs thr (enumerate (Suc i) (drop (Suc i) xs)) st"
    using Suc by simp
  obtain dups P where st: "st = (dups, P)" by (cases st)
  show ?case
    unfolding step st
    by (simp add: IH outer_step_def split: prod.splits)
qed

lemma find_duplicates_eq_greedy:
  "find_duplicates thr xs = greedy_groups thr xs"
proof (cases "length xs < 2")
  case True
  then have "xs = [] \<or> (\<exists>a. xs = [a])"
    by (cases xs) (auto simp: length_Suc_conv)
  then show ?thesis using True by (auto simp: find_duplicates_def)
next
  case False
  have "fold (outer_step thr xs) (enumerate 0 xs) ([], {})
          = outer_pairs thr (enumerate 0 xs) ([], {})"
    using fold_outer_step_pairs[of thr xs 0] by simp
  moreover have "fst (outer_pairs thr (enumerate 0 xs) ([], {})) = greedy_groups thr xs"
    by (subst outer_pairs_greedy) simp_all
  ultimately show ?thesis using False by (simp add: find_duplicates_def)
qed

lemma greedy_groups_shape:
  "g \<in> set (greedy_groups thr xs) \<Longrightarrow>
     2 \<le> length g \<and> (\<forall>b\<in>set (tl g). thr \<le> calculate_danmaku_similarity (hd g) b)"
proof (induction thr xs rule: greedy_groups.induct)
  case (1 thr)
  then show ?case by simp
next
  case (2 thr anchor later)
  then show ?case
    by (auto simp: Let_def Suc_le_eq split: if_splits)
qed

lemma mset_concat_greedy_groups: "mset (concat (greedy_groups thr xs)) \<subseteq># mset xs"
proof (induction thr xs rule: greedy_groups.induct)
  case (1 thr)
  then show ?case by simp
next
  case (2 thr anchor later)
  let ?sim = "\<lambda>b. thr \<le> calculate_danmaku_similarity anchor b"
  define M where "M = filter ?sim later"
  define R where "R = filter (\<lambda>b. \<not> ?sim b) later"
  have part: "mset later = mset M + mset R"
    unfolding M_def R_def by (simp add: multiset_partition[symmetric])
  have IH: "mset (concat (greedy_groups thr R)) \<subseteq># mset R"
    using 2 by (simp add: R_def)
  have unfold: "greedy_groups thr (anchor # later)
                  = (if M = [] then [] else [anchor # M]) @ greedy_groups thr R"
    by (simp add: M_def R_def Let_def)
  have "mset (concat (greedy_groups thr (anchor # later)))
          \<subseteq># add_mset anchor (mset M) + mset (concat (greedy_groups thr R))"
    unfolding unfold by (cases M) simp_all
  also have "\<dots> \<subseteq># add_mset anchor (mset M) + mset R"
    using IH by simp
  also have "\<dots> = mset (anchor # later)"
    using part by simp
  finally show ?case .
qed

lemma distinct_of_mset_subseteq:
  assumes "mset ys \<subseteq># mset xs" and "distinct xs"
  shows "distinct ys"
  unfolding distinct_count_atmost_1
proof (intro allI)
  fix a
  have "count (mset ys) a \<le> count (mset xs) a"
    using assms(1) by (simp add: mset_subset_eq_count)
  moreover have "count (mset xs) a \<le> 1"
    using assms(2) by (simp add: distinct_count_atmost_1)
  ultimately have le: "count (mset ys) a \<le> 1"
    by simp
  show "count (mset ys) a = (if a \<in> set ys then 1 else 0)"
  proof (cases "a \<in> set ys")
    case True
    then have "0 < count (mset ys) a" by simp
    then have "count (mset ys) a = 1" using le by linarith
    then show ?thesis using True by simp
  next
    case False
    then show ?thesis by simp
  qed
qed

lemmas similarity_defs = calculate_danmaku_similarity_def string_similarity_def
  comment_A_def comment_B_def comment_C_def

subsection \<open>The claims\<close>

text \<open>
  Claim C7 as stated fails on two empty texts: they are identical, the test for
  identical texts comes first, and the content similarity is 1 although a text is empty.
\<close>

theorem string_similarity_both_empty_counterexample:
  "string_similarity ([] :: string) [] = 1
   \<and> calculate_danmaku_similarity
        \<lparr> comment_id = 1, episode_id = 1, m = ([] :: string), t = 0 \<rparr>
        \<lparr> comment_id = 2, episode_id = 1, m = [], t = 0 \<rparr> = 1"
  by (simp add: calculate_danmaku_similarity_def string_similarity_def)

text \<open>
  Claim C7, amended. The similarity of two comments is
  \<open>0.8 * content_similarity + 0.2 * time_similarity\<close>, with
  \<open>time_similarity = max 0 (1 - |t1 - t2| / 5)\<close>. The content similarity is 1 for identical
  texts (two empty texts included) and 0 when exactly one text is empty; whenever the two
  texts are not both empty it is the Jaccard index of their sets of characters.
\<close>

theorem calculate_danmaku_similarity_formula:
  "calculate_danmaku_similarity d1 d2
     = 0.8 * string_similarity (m d1) (m d2) + 0.2 * max 0 (1 - \<bar>t d1 - t d2\<bar> / 5)
   \<and> (s1 = s2 \<longrightarrow> string_similarity s1 s2 = 1)
   \<and> (s1 \<noteq> s2 \<and> (s1 = [] \<or> s2 = []) \<longrightarrow> string_similarity s1 s2 = 0)
   \<and> (s1 \<noteq> [] \<or> s2 \<noteq> [] \<longrightarrow>
        string_similarity s1 s2
          = of_nat (card (set s1 \<inter> set s2)) / of_nat (card (set s1 \<union> set s2)))"
proof (intro conjI impI)
  show "calculate_danmaku_similarity d1 d2
     = 0.8 * string_similarity (m d1) (m d2) + 0.2 * max 0 (1 - \<bar>t d1 - t d2\<bar> / 5)"
    by (simp add: calculate_danmaku_similarity_def Let_def)
  show "string_similarity s1 s2 = 1" if "s1 = s2"
    using that by (simp add: string_similarity_def)
  show "string_similarity s1 s2 = 0" if "s1 \<noteq> s2 \<and> (s1 = [] \<or> s2 = [])"
    using that by (auto simp: string_similarity_def)
  show "string_similarity s1 s2
          = of_nat (card (set s1 \<inter> set s2)) / of_nat (card (set s1 \<union> set s2))"
    if ne: "s1 \<noteq> [] \<or> s2 \<noteq> []"
  proof (cases "s1 = s2")
    case True
    then have "card (set s1) \<noteq> 0" using ne by (simp add: card_eq_0_iff)
    then show ?thesis using True by (simp add: string_similarity_def)
  next
    case False
    then show ?thesis using ne by (auto simp: string_similarity_def Let_def)
  qed
qed

theorem calculate_danmaku_similarity_formula_witness:
  "calculate_danmaku_similarity comment_A comment_B = 24 / 25
   \<and> string_similarity ''hi'' ''hi'' = 1
   \<and> string_similarity ''hi'' [] = 0
   \<and> string_similarity ''hi'' ''ho'' = 1 / 3"
  using calculate_danmaku_similarity_formula [of comment_A comment_B "''hi''" "''hi''"]
        calculate_danmaku_similarity_formula [of comment_A comment_B "''hi''" "[]"]
        calculate_danmaku_similarity_formula [of comment_A comment_B "''hi''" "''ho''"]
  by (simp add: comment_A_def comment_B_def card_insert_if)

text \<open>
  Claim C8. The groups found by the two loops are the groups of the greedy policy of the
  specification: in input order, each comment not yet in a group is an anchor, its
  group is the anchor followed by the later comments not yet in a group whose similarity
  to the anchor reaches the threshold, compared with the anchor alone; the members are
  then out of the search; the anchor is element 0 of its group, and no group of one
  comment is returned.
\<close>

theorem find_duplicates_greedy:
  "find_duplicates thr all_danmaku = greedy_groups thr all_danmaku
   \<and> (\<forall>g\<in>set (find_duplicates thr all_danmaku).
         2 \<le> length g \<and> (\<forall>b\<in>set (tl g). thr \<le> calculate_danmaku_similarity (hd g) b))"
  using greedy_groups_shape [of _ thr all_danmaku]
  by (simp add: find_duplicates_eq_greedy)

theorem find_duplicates_greedy_witness:
  "find_duplicates (9 / 10) [comment_A, comment_B, comment_C] = [[comment_A, comment_B]]
   \<and> greedy_groups (9 / 10) [comment_A, comment_B, comment_C] = [[comment_A, comment_B]]
   \<and> 2 \<le> length [comment_A, comment_B]
   \<and> 9 / 10 \<le> calculate_danmaku_similarity (hd [comment_A, comment_B]) comment_B"
  using find_duplicates_greedy [of "9 / 10" "[comment_A, comment_B, comment_C]"]
  by (simp add: similarity_defs)

text \<open>
  Claim C9. Taken together, the groups of one search hold each comment of the input at
  most as often as the input does; so when the identifiers of the input are distinct
  (they are the primary key), no identifier occurs twice in the groups, neither in two
  groups nor twice in one.
\<close>

theorem find_duplicates_disjoint:
  "mset (concat (find_duplicates thr all_danmaku)) \<subseteq># mset all_danmaku
   \<and> (distinct (map comment_id all_danmaku) \<longrightarrow>
        distinct (map comment_id (concat (find_duplicates thr all_danmaku))))"
proof (intro conjI impI)
  show sub: "mset (concat (find_duplicates thr all_danmaku)) \<subseteq># mset all_danmaku"
    by (simp add: find_duplicates_eq_greedy mset_concat_greedy_groups)
  assume "distinct (map comment_id all_danmaku)"
  moreover have "mset (map comment_id (concat (find_duplicates thr all_danmaku)))
                   \<subseteq># mset (map comment_id all_danmaku)"
    using sub by (simp only: mset_map image_mset_subseteq_mono)
  ultimately show "distinct (map comment_id (concat (find_duplicates thr all_danmaku)))"
    by (rule distinct_of_mset_subseteq[rotated])
qed

theorem find_duplicates_disjoint_witness:
  "distinct (map comment_id [comment_A, comment_B, comment_C, comment_A\<lparr>comment_id := 4, t := 100\<rparr>])
   \<and> find_duplicates (9 / 10) [comment_A, comment_B, comment_C, comment_A\<lparr>comment_id := 4, t := 100\<rparr>]
       = [[comment_A, comment_B], [comment_C, comment_A\<lparr>comment_id := 4, t := 100\<rparr>]]
   \<and> distinct (map comment_id (concat (find_duplicates (9 / 10)
        [comment_A, comment_B, comment_C, comment_A\<lparr>comment_id := 4, t := 100\<rparr>])))"
  using find_duplicates_disjoint
          [of "9 / 10" "[comment_A, comment_B, comment_C, comment_A\<lparr>comment_id := 4, t := 100\<rparr>]"]
  by (simp add: find_duplicates_eq_greedy similarity_defs)

section \<open>Properties of the density detector\<close>

text \<open>
  Claim C10 at a table of three comments at 0, 10 and 11 seconds. The first statement
  ranks them as the claim says: the comments at 10 and 11 seconds have one neighbour
  each and come first, the earlier before the later, the comment at 0 seconds has none
  and comes last. The second statement reads the three comments back in the order of
  the table, so the list returned starts with the comment that has no neighbour and is
  not in the order of the ranking.
\<close>

theorem get_popular_danmaku_order_lost:
  "map (nearby_count popular_table) popular_table = [0, 1, 1]
   \<and> map comment_id (popular_rows popular_table 1 50) = [2, 3, 1]
   \<and> ranked popular_table (popular_rows popular_table 1 50)
   \<and> map comment_id (get_popular_danmaku popular_table 1 50) = [1, 2, 3]
   \<and> \<not> ranked popular_table (get_popular_danmaku popular_table 1 50)"
  by (simp add: popular_table_def nearby_count_def popular_rows_def get_popular_danmaku_def
      ranked_def Let_def)

end
